theory Spec2Isabelle
  imports
    Complex_Main
    "HOL-Library.Multiset"
    "HOL-Library.Product_Lexorder"
    "HOL-Library.List_Lexorder"
begin

section \<open>Python strings\<close>

text \<open>
  A Python \<^verbatim>\<open>str\<close> is a sequence of Unicode code points, so a character is a
  natural number and a string a list of them.  \<open>lit\<close> turns an ASCII literal into
  such a string.
\<close>

type_synonym pychar = nat
type_synonym pystr = "pychar list"

definition lit :: "string \<Rightarrow> pystr" where
  "lit s = map of_char s"

text \<open>
  The characters \<^verbatim>\<open>str.split()\<close> and \<^verbatim>\<open>str.strip()\<close> treat as whitespace:
  U+0009..U+000D, U+001C..U+001F, U+0020, U+0085, U+00A0, U+1680, U+2000..U+200A,
  U+2028, U+2029, U+202F, U+205F, U+3000.
\<close>

definition is_space :: "pychar \<Rightarrow> bool" where
  "is_space c =
     ((9 \<le> c \<and> c \<le> 13) \<or> (28 \<le> c \<and> c \<le> 32) \<or> c = 133 \<or> c = 160 \<or> c = 5760
      \<or> (8192 \<le> c \<and> c \<le> 8202) \<or> c = 8232 \<or> c = 8233 \<or> c = 8239 \<or> c = 8287
      \<or> c = 12288)"

text \<open>\<^verbatim>\<open>s.strip()\<close>: whitespace removed at both ends.\<close>

definition py_strip :: "pystr \<Rightarrow> pystr" where
  "py_strip s = rev (dropWhile is_space (rev (dropWhile is_space s)))"

text \<open>
  \<^verbatim>\<open>s.split()\<close>: skip whitespace, take the run of non-whitespace characters as a
  word, and go on behind it; no empty word is produced.
\<close>

function py_split :: "pystr \<Rightarrow> pystr list" where
  "py_split [] = []"
| "py_split (c # cs) =
     (if is_space c then py_split cs
      else (c # takeWhile (\<lambda>d. \<not> is_space d) cs)
             # py_split (dropWhile (\<lambda>d. \<not> is_space d) cs))"
  by pat_completeness auto
termination
  by (relation "measure length") (auto simp: length_dropWhile_le less_Suc_eq_le)

text \<open>\<^verbatim>\<open>sep.join(ts)\<close>.\<close>

fun py_join :: "pystr \<Rightarrow> pystr list \<Rightarrow> pystr" where
  "py_join sep [] = []"
| "py_join sep [t] = t"
| "py_join sep (t # u # ts) = t @ sep @ py_join sep (u # ts)"

text \<open>
  \<^verbatim>\<open>s.replace(old, new)\<close> for a pattern \<open>old\<close> of one character, the only kind the
  program uses.
\<close>

definition py_replace :: "pychar \<Rightarrow> pystr \<Rightarrow> pystr \<Rightarrow> pystr" where
  "py_replace old new s = concat (map (\<lambda>c. if c = old then new else [c]) s)"

text \<open>
  \<^verbatim>\<open>s.lower()\<close> and \<^verbatim>\<open>s.upper()\<close>, as the case mapping of the ASCII letters; code
  points outside \<open>A-Z\<close> and \<open>a-z\<close> are left as they are.
\<close>

definition lower_char :: "pychar \<Rightarrow> pychar" where
  "lower_char c = (if 65 \<le> c \<and> c \<le> 90 then c + 32 else c)"

definition upper_char :: "pychar \<Rightarrow> pychar" where
  "upper_char c = (if 97 \<le> c \<and> c \<le> 122 then c - 32 else c)"

definition lower :: "pystr \<Rightarrow> pystr" where
  "lower s = map lower_char s"

definition upper :: "pystr \<Rightarrow> pystr" where
  "upper s = map upper_char s"

text \<open>\<^verbatim>\<open>s.startswith(p)\<close> and the substring test \<^verbatim>\<open>p in s\<close>.\<close>

definition startswith :: "pystr \<Rightarrow> pystr \<Rightarrow> bool" where
  "startswith s p = (take (length p) s = p)"

fun str_in :: "pystr \<Rightarrow> pystr \<Rightarrow> bool" where
  "str_in p [] = (p = [])"
| "str_in p (c # cs) = (startswith (c # cs) p \<or> str_in p cs)"

section \<open>Text normalizer and key generator\<close>

definition NORMALIZE_SPACES :: bool where
  "NORMALIZE_SPACES = True"

text \<open>\<^verbatim>\<open>normalize_text\<close>; the argument \<open>None\<close> is Python's \<^verbatim>\<open>None\<close>.\<close>

definition normalize_text :: "pystr option \<Rightarrow> pystr" where
  "normalize_text x =
     (case x of
        None \<Rightarrow> []
      | Some s0 \<Rightarrow>
          let s1 = py_strip s0;
              s2 = (if NORMALIZE_SPACES then py_join (lit '' '') (py_split s1) else s1);
              s3 = py_replace 160 (lit '' '') (py_replace 8201 (lit '' '') s2)
          in py_join (lit '' '') (py_split s3))"

definition make_item_key :: "pystr \<Rightarrow> pystr \<Rightarrow> pystr \<Rightarrow> pystr" where
  "make_item_key size_s description_s units_s =
     (let size_n = lower (normalize_text (Some size_s));
          desc_n = lower (normalize_text (Some description_s));
          units_n = lower (normalize_text (Some units_s))
      in units_n @ lit '' | '' @ size_n @ lit '' | '' @ desc_n)"

section \<open>Floating-point values and \<^verbatim>\<open>float(s)\<close>\<close>

text \<open>
  A Python \<^verbatim>\<open>float\<close> is a finite number, an infinity or NaN.  Finite values are kept
  as exact real numbers: the rounding of decimal literals and of sums to binary64 is not part
  of this model.
\<close>

datatype pyfloat = Finite real | PosInf | NegInf | NaN

instantiation pyfloat :: comm_monoid_add
begin

definition zero_pyfloat :: pyfloat where
  "zero_pyfloat = Finite 0"

fun plus_pyfloat :: "pyfloat \<Rightarrow> pyfloat \<Rightarrow> pyfloat" where
  "plus_pyfloat (Finite a) (Finite b) = Finite (a + b)"
| "plus_pyfloat NaN y = NaN"
| "plus_pyfloat x NaN = NaN"
| "plus_pyfloat PosInf NegInf = NaN"
| "plus_pyfloat NegInf PosInf = NaN"
| "plus_pyfloat PosInf y = PosInf"
| "plus_pyfloat x PosInf = PosInf"
| "plus_pyfloat NegInf y = NegInf"
| "plus_pyfloat x NegInf = NegInf"

instance
proof
  fix x y z :: pyfloat
  show "0 + x = x"
    unfolding zero_pyfloat_def by (cases x) auto
  show "x + y = y + x"
    by (cases x; cases y; simp)
  show "x + y + z = x + (y + z)"
    by (cases x; cases y; cases z; simp)
qed

end

text \<open>
  The grammar \<^verbatim>\<open>float\<close> accepts, after stripping whitespace: an optional sign, then
  \<^verbatim>\<open>inf\<close>, \<^verbatim>\<open>infinity\<close> or \<^verbatim>\<open>nan\<close> in any letter case, or a decimal number with an
  optional exponent, where single underscores may separate digits.  Digits are the ASCII
  digits.  \<open>None\<close> stands for \<^verbatim>\<open>ValueError\<close>.
\<close>

definition is_digit :: "pychar \<Rightarrow> bool" where
  "is_digit c = (48 \<le> c \<and> c \<le> 57)"

fun digits_tail :: "pystr \<Rightarrow> nat list \<times> pystr" where
  "digits_tail (c # d # cs) =
     (if is_digit c then (case digits_tail (d # cs) of (ds, r) \<Rightarrow> ((c - 48) # ds, r))
      else if c = 95 \<and> is_digit d then (case digits_tail cs of (ds, r) \<Rightarrow> ((d - 48) # ds, r))
      else ([], c # d # cs))"
| "digits_tail [c] = (if is_digit c then ([c - 48], []) else ([], [c]))"
| "digits_tail [] = ([], [])"

definition digitpart :: "pystr \<Rightarrow> (nat list \<times> pystr) option" where
  "digitpart s =
     (case s of
        [] \<Rightarrow> None
      | c # cs \<Rightarrow>
          if is_digit c then (case digits_tail cs of (ds, r) \<Rightarrow> Some ((c - 48) # ds, r))
          else None)"

definition digits_value :: "nat list \<Rightarrow> nat" where
  "digits_value ds = foldl (\<lambda>a d. 10 * a + d) 0 ds"

definition parse_sign :: "pystr \<Rightarrow> bool \<times> pystr" where
  "parse_sign s =
     (case s of
        [] \<Rightarrow> (False, [])
      | c # cs \<Rightarrow> if c = 45 then (True, cs) else if c = 43 then (False, cs) else (False, s))"

definition parse_number :: "pystr \<Rightarrow> (nat list \<times> nat list \<times> pystr) option" where
  "parse_number s =
     (case digitpart s of
        Some (ip, r) \<Rightarrow>
          (case r of
             [] \<Rightarrow> Some (ip, [], [])
           | c # r' \<Rightarrow>
               if c = 46
               then (case digitpart r' of
                       Some (fp, r'') \<Rightarrow> Some (ip, fp, r'')
                     | None \<Rightarrow> Some (ip, [], r'))
               else Some (ip, [], r))
      | None \<Rightarrow>
          (case s of
             [] \<Rightarrow> None
           | c # s' \<Rightarrow>
               if c = 46
               then (case digitpart s' of
                       Some (fp, r) \<Rightarrow> Some ([], fp, r)
                     | None \<Rightarrow> None)
               else None))"

definition parse_exponent :: "pystr \<Rightarrow> int option" where
  "parse_exponent r =
     (case r of
        [] \<Rightarrow> Some 0
      | c # r' \<Rightarrow>
          if c = 101 \<or> c = 69
          then (case parse_sign r' of
                  (neg, r'') \<Rightarrow>
                    (case digitpart r'' of
                       None \<Rightarrow> None
                     | Some (ds, rest) \<Rightarrow>
                         if rest = []
                         then Some (if neg then - int (digits_value ds) else int (digits_value ds))
                         else None))
          else None)"

definition py_float :: "pystr \<Rightarrow> pyfloat option" where
  "py_float s0 =
     (case parse_sign (py_strip s0) of
        (neg, b) \<Rightarrow>
          if lower b = lit ''inf'' \<or> lower b = lit ''infinity''
          then Some (if neg then NegInf else PosInf)
          else if lower b = lit ''nan'' then Some NaN
          else (case parse_number b of
                  None \<Rightarrow> None
                | Some (ip, fp, r) \<Rightarrow>
                    (case parse_exponent r of
                       None \<Rightarrow> None
                     | Some e \<Rightarrow>
                         let m = real (digits_value (ip @ fp)) / 10 ^ length fp;
                             v = (if 0 \<le> e then m * 10 ^ nat e else m / 10 ^ nat (- e))
                         in Some (Finite (if neg then - v else v)))))"

section \<open>Errors and indexing\<close>

datatype py_error = IndexError | FileNotFoundError pystr | RuntimeError pystr

definition bind_err :: "py_error + 'a \<Rightarrow> ('a \<Rightarrow> py_error + 'b) \<Rightarrow> py_error + 'b" where
  "bind_err m f = (case m of Inl e \<Rightarrow> Inl e | Inr x \<Rightarrow> f x)"

text \<open>\<^verbatim>\<open>xs[i]\<close> for an index \<open>i \<ge> 0\<close>: out of range it raises \<^verbatim>\<open>IndexError\<close>.\<close>

definition getitem :: "'a list \<Rightarrow> nat \<Rightarrow> py_error + 'a" where
  "getitem xs i = (if i < length xs then Inr (xs ! i) else Inl IndexError)"

text \<open>
  A \<^verbatim>\<open>for\<close> loop whose body either appends one row or goes on to the next element
  (\<^verbatim>\<open>continue\<close>); an exception in the body ends the loop.
\<close>

fun collect_rows :: "('a \<Rightarrow> py_error + 'b option) \<Rightarrow> 'a list \<Rightarrow> py_error + 'b list" where
  "collect_rows f [] = Inr []"
| "collect_rows f (x # xs) =
     bind_err (f x) (\<lambda>row.
     bind_err (collect_rows f xs) (\<lambda>rest.
       Inr (case row of None \<Rightarrow> rest | Some y \<Rightarrow> y # rest)))"

text \<open>A \<^verbatim>\<open>for\<close> loop whose body extends the result by a list of rows.\<close>

fun extend_rows :: "('a \<Rightarrow> py_error + 'b list) \<Rightarrow> 'a list \<Rightarrow> py_error + 'b list" where
  "extend_rows f [] = Inr []"
| "extend_rows f (x # xs) =
     bind_err (f x) (\<lambda>ys.
     bind_err (extend_rows f xs) (\<lambda>rest. Inr (ys @ rest)))"

text \<open>
  A loop over \<^verbatim>\<open>enumerate(xs)\<close> that returns the first index whose element passes
  the test, and \<^verbatim>\<open>None\<close> when there is none.
\<close>

fun find_first :: "('a \<Rightarrow> bool) \<Rightarrow> 'a list \<Rightarrow> nat option" where
  "find_first P [] = None"
| "find_first P (x # xs) = (if P x then Some 0 else map_option Suc (find_first P xs))"

section \<open>Table row extractor\<close>

record raw_record =
  source :: pystr
  quantity :: pyfloat
  units :: pystr
  size_s :: pystr
  description :: pystr
  item_key :: pystr

definition HEADER_HINTS :: "pystr set" where
  "HEADER_HINTS = {lit ''quantity'', lit ''units'', lit ''size'', lit ''description''}"

text \<open>\<^verbatim>\<open>any(h in HEADER_HINTS for h in header)\<close>: membership in the set of hints.\<close>

definition header_has_hint :: "pystr list \<Rightarrow> bool" where
  "header_has_hint header = list_ex (\<lambda>h. h \<in> HEADER_HINTS) header"

definition find_col :: "pystr list \<Rightarrow> pystr \<Rightarrow> nat option" where
  "find_col header name = find_first (\<lambda>h. str_in name h) header"

text \<open>The body of the loop over the data rows.\<close>

definition table_row ::
  "pystr \<Rightarrow> nat \<Rightarrow> nat \<Rightarrow> nat \<Rightarrow> nat \<Rightarrow> pystr option list \<Rightarrow> py_error + raw_record option" where
  "table_row source_name idx_qty idx_units idx_size idx_desc r =
     (if r = [] \<or> length r < max idx_qty (max idx_units (max idx_size idx_desc)) + 1
      then Inr None
      else
        bind_err (getitem r idx_qty) (\<lambda>c_qty.
        bind_err (getitem r idx_units) (\<lambda>c_units.
        bind_err (getitem r idx_size) (\<lambda>c_size.
        bind_err (getitem r idx_desc) (\<lambda>c_desc.
          let qty_raw = normalize_text c_qty;
              units_n = normalize_text c_units;
              size_n = normalize_text c_size;
              desc_n = normalize_text c_desc
          in if qty_raw = [] \<or> units_n = [] \<or> desc_n = [] then Inr None
             else (case py_float qty_raw of
                     None \<Rightarrow> Inr None
                   | Some qty \<Rightarrow>
                       Inr (Some \<lparr>source = source_name, quantity = qty, units = units_n,
                                  size_s = size_n, description = desc_n,
                                  item_key = make_item_key size_n desc_n units_n\<rparr>)))))))"

text \<open>Column resolution and the loop over \<^verbatim>\<open>table[1:]\<close>.\<close>

definition table_data_rows ::
  "pystr list \<Rightarrow> pystr option list list \<Rightarrow> pystr \<Rightarrow> py_error + raw_record list" where
  "table_data_rows header data source_name =
     (case find_col header (lit ''quantity'') of
        None \<Rightarrow> Inr []
      | Some idx_qty \<Rightarrow>
     (case find_col header (lit ''units'') of
        None \<Rightarrow> Inr []
      | Some idx_units \<Rightarrow>
     (case find_col header (lit ''size'') of
        None \<Rightarrow> Inr []
      | Some idx_size \<Rightarrow>
     (case find_col header (lit ''description'') of
        None \<Rightarrow> Inr []
      | Some idx_desc \<Rightarrow>
          collect_rows (table_row source_name idx_qty idx_units idx_size idx_desc) data))))"

definition extract_rows_from_table ::
  "pystr option list list option \<Rightarrow> pystr \<Rightarrow> py_error + raw_record list" where
  "extract_rows_from_table table source_name =
     (case table of
        None \<Rightarrow> Inr []
      | Some t \<Rightarrow>
          if t = [] \<or> length t < 2 then Inr []
          else
            bind_err (getitem t 0) (\<lambda>row0.
              let header = map (\<lambda>x. lower (normalize_text x)) row0
              in if \<not> header_has_hint header then Inr []
                 else table_data_rows header (drop 1 t) source_name))"

section \<open>Text row extractor\<close>

text \<open>
  The test \<^verbatim>\<open>stitch_wrapped_lines\<close> makes on a normalized line: exactly two words, the
  first accepted by \<^verbatim>\<open>float\<close>, the second \<^verbatim>\<open>EA\<close> or \<^verbatim>\<open>LF\<close> in upper case.
\<close>

definition is_wrapped_prefix :: "pystr \<Rightarrow> bool" where
  "is_wrapped_prefix cur =
     (case py_split cur of
        [qty_raw, unit_raw] \<Rightarrow>
          py_float qty_raw \<noteq> None \<and> upper unit_raw \<in> {lit ''EA'', lit ''LF''}
      | _ \<Rightarrow> False)"

text \<open>
  The \<^verbatim>\<open>while\<close> loop over the index \<open>i\<close>, as recursion on the lines from \<open>i\<close> on:
  \<^verbatim>\<open>i + 1 < len(lines)\<close> holds when a second line is there.
\<close>

fun stitch_wrapped_lines :: "pystr list \<Rightarrow> pystr list" where
  "stitch_wrapped_lines [] = []"
| "stitch_wrapped_lines [l] =
     (let cur = normalize_text (Some l) in if cur = [] then [] else [cur])"
| "stitch_wrapped_lines (l # n # ls) =
     (let cur = normalize_text (Some l)
      in if cur = [] then stitch_wrapped_lines (n # ls)
         else if is_wrapped_prefix cur \<and> normalize_text (Some n) \<noteq> []
              then (cur @ lit '' '' @ normalize_text (Some n)) # stitch_wrapped_lines ls
              else cur # stitch_wrapped_lines (n # ls))"

definition DESC_START_TOKENS :: "pystr list" where
  "DESC_START_TOKENS =
     [lit ''type'', lit ''propress'', lit ''wrot'', lit ''threaded'', lit ''butterfly'',
      lit ''bolts'', lit ''valve'', lit ''adapter'', lit ''coupling'', lit ''cap'', lit ''tee'',
      lit ''ell'', lit ''reducer'', lit ''flange'', lit ''plug'', lit ''tube'', lit ''street'',
      lit ''measurement/balancing'']"

definition is_desc_start :: "pystr \<Rightarrow> bool" where
  "is_desc_start t =
     (let tt = lower t in list_ex (\<lambda>k. tt = k \<or> startswith tt k) DESC_START_TOKENS)"

definition find_desc_start_index :: "pystr list \<Rightarrow> nat option" where
  "find_desc_start_index tokens = find_first is_desc_start tokens"

text \<open>\<^verbatim>\<open>text.splitlines()\<close>; a line ends at any of Python's line boundaries.\<close>

definition is_linebreak :: "pychar \<Rightarrow> bool" where
  "is_linebreak c =
     ((10 \<le> c \<and> c \<le> 13) \<or> (28 \<le> c \<and> c \<le> 30) \<or> c = 133 \<or> c = 8232 \<or> c = 8233)"

fun splitlines_from :: "pystr \<Rightarrow> pystr \<Rightarrow> pystr list" where
  "splitlines_from cur [] = (if cur = [] then [] else [rev cur])"
| "splitlines_from cur [c] = (if is_linebreak c then [rev cur] else [rev (c # cur)])"
| "splitlines_from cur (c # d # cs) =
     (if c = 13 \<and> d = 10 then rev cur # splitlines_from [] cs
      else if is_linebreak c then rev cur # splitlines_from [] (d # cs)
      else splitlines_from (c # cur) (d # cs))"

definition py_splitlines :: "pystr \<Rightarrow> pystr list" where
  "py_splitlines s = splitlines_from [] s"

text \<open>
  The split of the words behind quantity and units into the size and the description
  texts, before they are normalized.
\<close>

definition split_size_desc :: "pystr list \<Rightarrow> pystr \<times> pystr" where
  "split_size_desc remainder =
     (case find_desc_start_index remainder of
        None \<Rightarrow> ([], py_join (lit '' '') remainder)
      | Some desc_start \<Rightarrow>
          if desc_start = 0 then ([], py_join (lit '' '') remainder)
          else (py_join (lit '' '') (take desc_start remainder),
                py_join (lit '' '') (drop desc_start remainder)))"

text \<open>The body of the loop over the stitched lines.\<close>

definition text_line :: "pystr \<Rightarrow> pystr \<Rightarrow> py_error + raw_record option" where
  "text_line source_name line0 =
     (let line = normalize_text (Some line0)
      in if line = [] then Inr None
         else if startswith (lower line) (lit ''dkc -'')
                 \<or> startswith (lower line) (lit ''quantity units'')
         then Inr None
         else
           let parts = py_split line
           in if length parts < 4 then Inr None
              else
                bind_err (getitem parts 0) (\<lambda>qty_raw.
                bind_err (getitem parts 1) (\<lambda>units_raw.
                  case py_float qty_raw of
                    None \<Rightarrow> Inr None
                  | Some qty \<Rightarrow>
                      let units_n = normalize_text (Some units_raw)
                      in if upper units_n \<notin> {lit ''EA'', lit ''LF''} then Inr None
                         else
                           let remainder = drop 2 parts;
                               size_n = normalize_text (Some (fst (split_size_desc remainder)));
                               desc_n = normalize_text (Some (snd (split_size_desc remainder)))
                           in if desc_n = [] then Inr None
                              else Inr (Some \<lparr>source = source_name, quantity = qty,
                                              units = units_n, size_s = size_n,
                                              description = desc_n,
                                              item_key = make_item_key size_n desc_n units_n\<rparr>))))"

definition extract_rows_from_text :: "pystr option \<Rightarrow> pystr \<Rightarrow> py_error + raw_record list" where
  "extract_rows_from_text text source_name =
     (case text of
        None \<Rightarrow> Inr []
      | Some t \<Rightarrow>
          if t = [] then Inr []
          else collect_rows (text_line source_name) (stitch_wrapped_lines (py_splitlines t)))"

section \<open>Page extraction coordinator\<close>

record page =
  page_table :: "pystr option list list option"
  page_text :: "pystr option"

record pdf =
  stem :: pystr
  pages :: "page list"

definition extract_page :: "pystr \<Rightarrow> page \<Rightarrow> py_error + raw_record list" where
  "extract_page source_name p =
     bind_err (extract_rows_from_table (page_table p) source_name) (\<lambda>table_rows.
       if length table_rows < 2
       then
         let page_text_s = (case page_text p of None \<Rightarrow> [] | Some t \<Rightarrow> t)
         in bind_err (extract_rows_from_text (Some page_text_s) source_name) (\<lambda>text_rows.
              Inr (table_rows @ text_rows))
       else Inr table_rows)"

definition extract_pdf :: "pdf \<Rightarrow> py_error + raw_record list" where
  "extract_pdf f = extend_rows (extract_page (stem f)) (pages f)"

section \<open>Size-to-numeric coercion\<close>

text \<open>\<^verbatim>\<open>s.split(sep)\<close> for a separator of one character; the result is never empty.\<close>

fun split_on :: "pychar \<Rightarrow> pystr \<Rightarrow> pystr list" where
  "split_on sep [] = [[]]"
| "split_on sep (c # cs) =
     (if c = sep then [] # split_on sep cs
      else (case split_on sep cs of [] \<Rightarrow> [[c]] | t # ts \<Rightarrow> (c # t) # ts))"

definition size_to_float :: "pystr option \<Rightarrow> py_error + pyfloat" where
  "size_to_float size_arg =
     (case size_arg of
        None \<Rightarrow> Inr (Finite 0)
      | Some sz \<Rightarrow>
          if sz = [] then Inr (Finite 0)
          else
            let s = py_replace 190 (lit ''.75'')
                      (py_replace 189 (lit ''.5'') (py_replace 188 (lit ''.25'') sz))
            in bind_err (getitem (split_on 120 s) 0) (\<lambda>before_x.
               bind_err (getitem (py_split (py_strip before_x)) 0) (\<lambda>tok.
                 case py_float tok of
                   Some v \<Rightarrow> Inr v
                 | None \<Rightarrow> Inr (Finite 0))))"

section \<open>Aggregation and sort engine\<close>

record master_record =
  m_quantity :: pyfloat
  m_units :: pystr
  m_size :: pystr
  m_description :: pystr
  m_item_key :: pystr

text \<open>
  \<^verbatim>\<open>df.groupby(["item_key", "units", "size", "description"], as_index=False)
  .agg(quantity=("quantity", "sum"))\<close>: one row for each distinct combination of the four
  columns, the rows in ascending order of the combination, the quantity the sum over the
  group, in which NaN entries are skipped.
\<close>

type_synonym group_key = "pystr \<times> pystr \<times> pystr \<times> pystr"

definition group_key_of :: "raw_record \<Rightarrow> group_key" where
  "group_key_of r = (item_key r, units r, size_s r, description r)"

definition group_sum :: "raw_record list \<Rightarrow> group_key \<Rightarrow> pyfloat" where
  "group_sum df k =
     sum_list (filter (\<lambda>q. q \<noteq> NaN) (map quantity (filter (\<lambda>r. group_key_of r = k) df)))"

definition groupby_sum :: "raw_record list \<Rightarrow> master_record list" where
  "groupby_sum df =
     map (\<lambda>k. case k of (ik, u, sz, d) \<Rightarrow>
            \<lparr>m_quantity = group_sum df k, m_units = u, m_size = sz, m_description = d,
             m_item_key = ik\<rparr>)
         (sort (remdups (map group_key_of df)))"

definition unit_order :: "pystr \<Rightarrow> nat" where
  "unit_order u = (if u = lit ''LF'' then 0 else if u = lit ''EA'' then 1 else 99)"

text \<open>
  The place of a float in an ascending sort: by value, with NaN after every number
  (\<^verbatim>\<open>na_position\<close> is \<^verbatim>\<open>"last"\<close>).
\<close>

fun float_rank :: "pyfloat \<Rightarrow> nat \<times> real" where
  "float_rank NegInf = (0, 0)"
| "float_rank (Finite x) = (1, x)"
| "float_rank PosInf = (2, 0)"
| "float_rank NaN = (3, 0)"

text \<open>\<^verbatim>\<open>master["size"].apply(size_to_float)\<close>: an exception at any row ends it.\<close>

fun apply_size_to_float :: "master_record list \<Rightarrow> py_error + pyfloat list" where
  "apply_size_to_float [] = Inr []"
| "apply_size_to_float (m # ms) =
     bind_err (size_to_float (Some (m_size m))) (\<lambda>v.
     bind_err (apply_size_to_float ms) (\<lambda>vs. Inr (v # vs)))"

type_synonym sort_key_t = "nat \<times> pystr \<times> nat \<times> real"

definition sort_master :: "master_record list \<Rightarrow> py_error + master_record list" where
  "sort_master master =
     bind_err (apply_size_to_float master) (\<lambda>size_sort.
       let unit_sort = map (\<lambda>m. unit_order (upper (m_units m))) master;
           keys = map (\<lambda>(u, m, v). (u, m_description m, float_rank v))
                      (zip unit_sort (zip master size_sort))
       in Inr (map snd (sort_key fst (zip keys master))))"

section \<open>The run\<close>

record world =
  input_dir_exists :: bool
  input_dir_resolved :: pystr
  output_dir_exists :: bool
  pdf_files :: "pdf list"
  output_file :: "(master_record list \<times> raw_record list) option"

definition main :: "world \<Rightarrow> (py_error + unit) \<times> world" where
  "main w =
     (if \<not> input_dir_exists w
      then (Inl (FileNotFoundError (lit ''Missing folder: '' @ input_dir_resolved w)), w)
      else
        let w1 = w\<lparr>output_dir_exists := True\<rparr>
        in if pdf_files w1 = [] then (Inl (FileNotFoundError (lit ''No PDFs found.'')), w1)
           else (case extend_rows extract_pdf (pdf_files w1) of
                   Inl e \<Rightarrow> (Inl e, w1)
                 | Inr rows \<Rightarrow>
                     if rows = [] then (Inl (RuntimeError (lit ''No rows extracted.'')), w1)
                     else (case sort_master (groupby_sum rows) of
                             Inl e \<Rightarrow> (Inl e, w1)
                           | Inr master \<Rightarrow> (Inr (), w1\<lparr>output_file := Some (master, rows)\<rparr>))))"

section \<open>The header test as the specification words it\<close>

text \<open>
  The specification's wording of the header test: some header cell contains one of the
  hint tokens as a substring.
\<close>

definition header_contains_hint :: "pystr list \<Rightarrow> bool" where
  "header_contains_hint header =
     list_ex (\<lambda>h. list_ex (\<lambda>k. str_in k h)
                [lit ''quantity'', lit ''units'', lit ''size'', lit ''description''])
             header"

text \<open>The normalized, lower-cased header cells of a grid's first row.\<close>

definition header_of :: "pystr option list list \<Rightarrow> pystr list" where
  "header_of t = map (\<lambda>x. lower (normalize_text x)) (hd t)"

text \<open>Two grids with one data row: headers that vary the column names, and plain headers.\<close>

definition varied_header_table :: "pystr option list list" where
  "varied_header_table =
     [[Some (lit ''Quantity Ordered''), Some (lit ''Units of Measure''),
       Some (lit ''Size (in)''), Some (lit ''Item Description'')],
      [Some (lit ''3''), Some (lit ''EA''), None, Some (lit ''Ball  Valve'')]]"

definition plain_header_table :: "pystr option list list" where
  "plain_header_table =
     [[Some (lit ''Quantity''), Some (lit ''Units''), Some (lit ''Size''),
       Some (lit ''Description'')],
      [Some (lit ''3''), Some (lit ''EA''), None, Some (lit ''Ball  Valve'')]]"

definition ball_valve_record :: raw_record where
  "ball_valve_record =
     \<lparr>source = lit ''doc'', quantity = Finite 3, units = lit ''EA'', size_s = [],
      description = lit ''Ball Valve'', item_key = lit ''ea |  | ball valve''\<rparr>"

section \<open>Line stitching as the specification words it\<close>

text \<open>
  The specification's wording of line stitching: first every line is normalized and the
  blank ones are dropped; then a line that is a quantity/unit prefix is joined with the
  line that follows it among the remaining ones.
\<close>

fun stitch_pairs :: "pystr list \<Rightarrow> pystr list" where
  "stitch_pairs [] = []"
| "stitch_pairs [l] = [l]"
| "stitch_pairs (l # n # ls) =
     (if is_wrapped_prefix l then (l @ lit '' '' @ n) # stitch_pairs ls
      else l # stitch_pairs (n # ls))"

definition stitch_spec :: "pystr list \<Rightarrow> pystr list" where
  "stitch_spec lines =
     stitch_pairs (filter (\<lambda>l. l \<noteq> []) (map (\<lambda>l. normalize_text (Some l)) lines))"

text \<open>No quantity/unit prefix line is directly followed by a blank line.\<close>

fun no_blank_after_prefix :: "pystr list \<Rightarrow> bool" where
  "no_blank_after_prefix (l # n # ls) =
     ((is_wrapped_prefix (normalize_text (Some l)) \<longrightarrow> normalize_text (Some n) \<noteq> [])
      \<and> no_blank_after_prefix (n # ls))"
| "no_blank_after_prefix [l] = True"
| "no_blank_after_prefix [] = True"

section \<open>The prefix checks of the text extractor\<close>

text \<open>
  A line passes the prefix checks of \<open>text_line\<close>: it is not blank, is no noise or header
  echo, has at least four words, the first a number and the second \<^verbatim>\<open>EA\<close> or \<^verbatim>\<open>LF\<close>.
\<close>

definition passes_prefix_checks :: "pystr \<Rightarrow> bool" where
  "passes_prefix_checks line0 =
     (let line = normalize_text (Some line0); parts = py_split line
      in line \<noteq> []
         \<and> \<not> startswith (lower line) (lit ''dkc -'')
         \<and> \<not> startswith (lower line) (lit ''quantity units'')
         \<and> 4 \<le> length parts
         \<and> py_float (parts ! 0) \<noteq> None
         \<and> upper (normalize_text (Some (parts ! 1))) \<in> {lit ''EA'', lit ''LF''})"

text \<open>The words of a line behind quantity and units.\<close>

definition remainder_of :: "pystr \<Rightarrow> pystr list" where
  "remainder_of line0 = drop 2 (py_split (normalize_text (Some line0)))"

section \<open>A run that finds no rows\<close>

text \<open>A folder with one document whose only page has no table and no line items.\<close>

definition empty_run_world :: world where
  "empty_run_world =
     \<lparr>input_dir_exists = True, input_dir_resolved = lit ''/work/input_pdfs'',
      output_dir_exists = False,
      pdf_files = [\<lparr>stem = lit ''doc'',
                    pages = [\<lparr>page_table = None, page_text = Some (lit ''Notes only'')\<rparr>]\<rparr>],
      output_file = None\<rparr>"

section \<open>The order of the sorted master list\<close>


text \<open>The three helper columns of a row whose size converts.\<close>

definition sort_columns :: "master_record \<Rightarrow> sort_key_t" where
  "sort_columns m =
     (unit_order (upper (m_units m)), m_description m,
      float_rank (projr (size_to_float (Some (m_size m)))))"

definition master_row :: "real \<Rightarrow> string \<Rightarrow> string \<Rightarrow> string \<Rightarrow> master_record" where
  "master_row q u sz d =
     \<lparr>m_quantity = Finite q, m_units = lit u, m_size = lit sz, m_description = lit d,
      m_item_key = make_item_key (lit sz) (lit d) (lit u)\<rparr>"

definition unsorted_master :: "master_record list" where
  "unsorted_master =
     [master_row 4 ''ea'' ''2'' ''Valve'', master_row 10 ''LF'' ''1.5'' ''Pipe'',
      master_row 7 ''XX'' [] ''Bolt'', master_row 1 ''EA'' ''1.5 x close'' ''Valve'']"

section \<open>Examples for the aggregation\<close>





section \<open>Strings that differ only by letter case or spacing\<close>


definition is_word :: "pystr \<Rightarrow> bool" where
  "is_word t = (t \<noteq> [] \<and> list_all (\<lambda>c. \<not> is_space c) t)"

section \<open>Words and joined words\<close>

lemma lit_space [simp]: "lit '' '' = [32]"
  by (simp add: lit_def)

lemma is_space_32 [simp]: "is_space 32"
  by (simp add: is_space_def)

lemma py_split_words: "list_all is_word (py_split s)"
proof (induction s rule: py_split.induct)
  case 1
  show ?case by simp
next
  case (2 c cs)
  have "is_word (c # takeWhile (\<lambda>d. \<not> is_space d) cs)" if "\<not> is_space c"
    using that by (auto simp: is_word_def list_all_iff dest: set_takeWhileD)
  with 2 show ?case by simp
qed

lemma py_split_word_append:
  assumes "is_word t"
  shows "py_split (t @ 32 # s) = t # py_split s"
proof -
  from assms obtain c cs where t: "t = c # cs" and c: "\<not> is_space c"
    and cs: "\<forall>d\<in>set cs. \<not> is_space d"
    by (cases t) (auto simp: is_word_def list_all_iff)
  from cs have tk: "takeWhile (\<lambda>d. \<not> is_space d) (cs @ 32 # s) = cs"
    and dr: "dropWhile (\<lambda>d. \<not> is_space d) (cs @ 32 # s) = 32 # s"
    by (simp_all add: takeWhile_append2 dropWhile_append2)
  show ?thesis unfolding t using c by (simp add: tk dr)
qed

lemma py_split_word:
  assumes "is_word t"
  shows "py_split t = [t]"
proof -
  from assms obtain c cs where t: "t = c # cs" and c: "\<not> is_space c"
    and cs: "\<forall>d\<in>set cs. \<not> is_space d"
    by (cases t) (auto simp: is_word_def list_all_iff)
  from cs have tk: "takeWhile (\<lambda>d. \<not> is_space d) cs = cs"
    and dr: "dropWhile (\<lambda>d. \<not> is_space d) cs = []"
    by (simp_all add: takeWhile_eq_all_conv dropWhile_eq_Nil_conv)
  show ?thesis unfolding t using c by (simp add: tk dr)
qed

lemma py_split_join:
  "list_all is_word ts \<Longrightarrow> py_split (py_join [32] ts) = ts"
proof (induction ts rule: induct_list012)
  case 1
  then show ?case by simp
next
  case (2 t)
  then show ?case by (simp add: py_split_word)
next
  case (3 t u ts)
  then show ?case by (simp add: py_split_word_append)
qed

lemma py_join_hd_last:
  "list_all is_word ts \<Longrightarrow> ts \<noteq> [] \<Longrightarrow>
     \<not> is_space (hd (py_join [32] ts)) \<and> \<not> is_space (last (py_join [32] ts))
     \<and> py_join [32] ts \<noteq> []"
proof (induction ts rule: induct_list012)
  case 1
  then show ?case by simp
next
  case (2 t)
  then have "t \<noteq> []" and "\<forall>c\<in>set t. \<not> is_space c"
    by (auto simp: is_word_def list_all_iff)
  then show ?case
    using hd_in_set [of t] last_in_set [of t] by auto
next
  case (3 t u ts)
  then have "t \<noteq> []" and "\<forall>c\<in>set t. \<not> is_space c"
    by (auto simp: is_word_def list_all_iff)
  with 3 show ?case
    using hd_in_set [of t] by (cases t) auto
qed

lemma py_strip_join:
  assumes "list_all is_word ts"
  shows "py_strip (py_join [32] ts) = py_join [32] ts"
proof (cases "ts = []")
  case True
  then show ?thesis by (simp add: py_strip_def)
next
  case False
  let ?j = "py_join [32] ts"
  from py_join_hd_last [OF assms False]
  have h: "\<not> is_space (hd ?j)" and l: "\<not> is_space (last ?j)" and ne: "?j \<noteq> []"
    by auto
  from h ne have d1: "dropWhile is_space ?j = ?j" by (cases ?j) auto
  from l ne have "\<not> is_space (hd (rev ?j))" by (simp add: hd_rev)
  with ne have d2: "dropWhile is_space (rev ?j) = rev ?j" by (cases "rev ?j") auto
  show ?thesis by (simp add: py_strip_def d1 d2)
qed

lemma py_replace_absent: "old \<notin> set s \<Longrightarrow> py_replace old new s = s"
  by (induction s) (auto simp: py_replace_def)

lemma set_py_join:
  "set (py_join [32] ts) \<subseteq> insert 32 (\<Union> (set ` set ts))"
  by (induction ts rule: induct_list012) auto

lemma py_replace_join:
  assumes "list_all is_word ts" and "is_space old" and "old \<noteq> 32"
  shows "py_replace old new (py_join [32] ts) = py_join [32] ts"
proof (rule py_replace_absent)
  from assms(1,2) have "old \<notin> \<Union> (set ` set ts)"
    by (auto simp: is_word_def list_all_iff)
  with assms(3) set_py_join [of ts] show "old \<notin> set (py_join [32] ts)" by auto
qed

lemma is_space_odd [simp]: "is_space 160" "is_space 8201"
  by (simp_all add: is_space_def)

lemma normalize_text_join:
  assumes "list_all is_word ts"
  shows "normalize_text (Some (py_join [32] ts)) = py_join [32] ts"
proof -
  have r: "py_replace 160 [32] (py_replace 8201 [32] (py_join [32] ts)) = py_join [32] ts"
    using py_replace_join [OF assms, of 8201 "[32]"] py_replace_join [OF assms, of 160 "[32]"]
    by simp
  show ?thesis
    using assms r py_strip_join [OF assms] py_split_join [OF assms]
    by (simp add: normalize_text_def NORMALIZE_SPACES_def)
qed

lemma normalize_text_is_join:
  "\<exists>ts. list_all is_word ts \<and> normalize_text x = py_join [32] ts"
proof (cases x)
  case None
  have "list_all is_word [] \<and> normalize_text None = py_join [32] []"
    by (simp add: normalize_text_def)
  with None show ?thesis by blast
next
  case (Some s)
  then show ?thesis
    unfolding normalize_text_def by (auto simp: Let_def intro: py_split_words)
qed

section \<open>Normalization is idempotent\<close>

text \<open>
  C8: normalizing the result of the normalizer gives that result back, for every
  string and for the absent string.
\<close>

theorem normalize_text_idempotent:
  "normalize_text (Some (normalize_text x)) = normalize_text x"
proof -
  obtain ts where "list_all is_word ts" and "normalize_text x = py_join [32] ts"
    using normalize_text_is_join by blast
  then show ?thesis by (simp only: normalize_text_join)
qed

theorem normalize_text_idempotent_witness:
  "normalize_text (Some (normalize_text (Some (lit ''  2   EA  ''))))
     = normalize_text (Some (lit ''  2   EA  ''))"
  using normalize_text_idempotent [of "Some (lit ''  2   EA  '')"] by simp

section \<open>The item key ignores letter case and spacing\<close>







lemma lower_char_32 [simp]: "lower_char 32 = 32"
  by (simp add: lower_char_def)

lemma lower_append: "lower (s @ t) = lower s @ lower t"
  by (simp add: lower_def)





section \<open>The extractors never raise\<close>

lemmas string_defs =
  lit_def is_space_def py_strip_def py_replace_def lower_def lower_char_def upper_def
  upper_char_def startswith_def normalize_text_def NORMALIZE_SPACES_def make_item_key_def

lemmas float_defs =
  py_float_def parse_sign_def parse_number_def parse_exponent_def digitpart_def
  digits_value_def is_digit_def

lemma getitem_in_range: "i < length xs \<Longrightarrow> getitem xs i = Inr (xs ! i)"
  by (simp add: getitem_def)

lemma collect_rows_total:
  assumes "\<And>x. \<exists>row. f x = Inr row"
  shows "\<exists>rows. collect_rows f xs = Inr rows"
proof (induction xs)
  case Nil
  show ?case by simp
next
  case (Cons x xs)
  from assms obtain row where "f x = Inr row" by blast
  moreover from Cons obtain rest where "collect_rows f xs = Inr rest" by blast
  ultimately show ?case by (simp add: bind_err_def)
qed

lemma extend_rows_total:
  assumes "\<And>x. \<exists>rows. f x = Inr rows"
  shows "\<exists>rows. extend_rows f xs = Inr rows"
proof (induction xs)
  case Nil
  show ?case by simp
next
  case (Cons x xs)
  from assms obtain ys where "f x = Inr ys" by blast
  moreover from Cons obtain rest where "extend_rows f xs = Inr rest" by blast
  ultimately show ?case by (simp add: bind_err_def)
qed

lemma table_row_total:
  "\<exists>row. table_row source_name idx_qty idx_units idx_size idx_desc r = Inr row"
proof (cases "r = [] \<or> length r < max idx_qty (max idx_units (max idx_size idx_desc)) + 1")
  case True
  then show ?thesis by (simp add: table_row_def)
next
  case False
  then have "idx_qty < length r" "idx_units < length r" "idx_size < length r"
    "idx_desc < length r"
    by auto
  then show ?thesis
    using False
    by (simp add: table_row_def getitem_in_range bind_err_def Let_def split: option.split)
qed

lemma table_data_rows_total:
  "\<exists>rows. table_data_rows header data source_name = Inr rows"
  unfolding table_data_rows_def
  by (auto split: option.split intro: collect_rows_total table_row_total)

lemma extract_rows_from_table_total:
  "\<exists>rows. extract_rows_from_table table source_name = Inr rows"
proof (cases table)
  case None
  then show ?thesis by (simp add: extract_rows_from_table_def)
next
  case (Some t)
  show ?thesis
  proof (cases "t = [] \<or> length t < 2")
    case True
    with Some show ?thesis by (simp add: extract_rows_from_table_def)
  next
    case False
    then have "getitem t 0 = Inr (t ! 0)" by (simp add: getitem_def)
    with Some False show ?thesis
      using table_data_rows_total
      by (simp add: extract_rows_from_table_def bind_err_def Let_def)
  qed
qed

lemma text_line_total: "\<exists>row. text_line source_name line0 = Inr row"
proof (cases "length (py_split (normalize_text (Some line0))) < 4")
  case True
  then show ?thesis by (simp add: text_line_def Let_def)
next
  case False
  then have "0 < length (py_split (normalize_text (Some line0)))"
    and "1 < length (py_split (normalize_text (Some line0)))"
    by linarith+
  then have "getitem (py_split (normalize_text (Some line0))) 0
      = Inr (py_split (normalize_text (Some line0)) ! 0)"
    and "getitem (py_split (normalize_text (Some line0))) 1
      = Inr (py_split (normalize_text (Some line0)) ! 1)"
    by (simp_all only: getitem_in_range)
  then show ?thesis
    by (simp add: text_line_def Let_def bind_err_def split: option.split)
qed

lemma extract_rows_from_text_total:
  "\<exists>rows. extract_rows_from_text text source_name = Inr rows"
  unfolding extract_rows_from_text_def
  by (auto split: option.split intro: collect_rows_total text_line_total)

text \<open>
  C10: neither per-page extractor raises.  For every table grid (absent, with fewer than
  two rows, with short rows, with absent cells) \<open>extract_rows_from_table\<close> returns a list of
  records, and for every text (absent or empty too) \<open>extract_rows_from_text\<close> returns a list
  of records.
\<close>

theorem extractors_never_raise:
  "(\<exists>rows. extract_rows_from_table table source_name = Inr rows)
   \<and> (\<exists>rows. extract_rows_from_text text source_name = Inr rows)"
  using extract_rows_from_table_total extract_rows_from_text_total by blast

lemmas table_defs =
  extract_rows_from_table_def table_data_rows_def table_row_def find_col_def
  header_has_hint_def HEADER_HINTS_def getitem_def bind_err_def

lemma extract_plain_header_table:
  "extract_rows_from_table (Some plain_header_table) (lit ''doc'') = Inr [ball_valve_record]"
  by (simp add: plain_header_table_def ball_valve_record_def table_defs string_defs
      float_defs)

lemma table_data_rows_varied_header_table:
  "table_data_rows (header_of varied_header_table) (drop 1 varied_header_table) (lit ''doc'')
     = Inr [ball_valve_record]"
  by (simp add: varied_header_table_def header_of_def ball_valve_record_def table_defs
      string_defs float_defs)

lemma extract_varied_header_table:
  "extract_rows_from_table (Some varied_header_table) (lit ''doc'') = Inr []"
  by (simp add: varied_header_table_def table_defs string_defs)

theorem extractors_never_raise_witness:
  "(\<exists>rows. extract_rows_from_table (Some plain_header_table) (lit ''doc'') = Inr rows)
   \<and> (\<exists>rows. extract_rows_from_text (Some (lit ''2 EA 1/2in Valve'')) (lit ''doc'')
         = Inr rows)"
  using extractors_never_raise
    [of "Some plain_header_table" "lit ''doc''" "Some (lit ''2 EA 1/2in Valve'')"]
  by simp

section \<open>The header gate of the table extractor\<close>

text \<open>
  C4 as stated fails: the grid \<open>varied_header_table\<close> has two rows and every header cell
  contains a hint token as a substring, yet the extractor rejects it, although column
  resolution on the same grid yields a record.
\<close>

theorem header_substring_gate_counterexample:
  "2 \<le> length varied_header_table
   \<and> header_contains_hint (header_of varied_header_table)
   \<and> extract_rows_from_table (Some varied_header_table) (lit ''doc'') = Inr []
   \<and> table_data_rows (header_of varied_header_table) (drop 1 varied_header_table)
        (lit ''doc'') \<noteq> Inr []"
proof -
  have "2 \<le> length varied_header_table"
    by (simp add: varied_header_table_def)
  moreover have "header_contains_hint (header_of varied_header_table)"
    by (simp add: header_contains_hint_def header_of_def varied_header_table_def string_defs)
  moreover have "table_data_rows (header_of varied_header_table)
      (drop 1 varied_header_table) (lit ''doc'') \<noteq> Inr []"
    unfolding table_data_rows_varied_header_table by simp
  ultimately show ?thesis
    using extract_varied_header_table by blast
qed

text \<open>
  C4 as amended: for a grid with at least two rows, the extractor goes on to column
  resolution exactly when some normalized, lower-cased header cell is equal to one of the
  hint tokens \<open>quantity\<close>, \<open>units\<close>, \<open>size\<close>, \<open>description\<close>; otherwise it returns the
  empty list.
\<close>

theorem header_exact_gate:
  assumes "2 \<le> length t"
  shows "extract_rows_from_table (Some t) source_name =
     (if list_ex (\<lambda>h. h = lit ''quantity'' \<or> h = lit ''units'' \<or> h = lit ''size''
                      \<or> h = lit ''description'') (header_of t)
      then table_data_rows (header_of t) (drop 1 t) source_name
      else Inr [])"
proof -
  from assms obtain row0 rest where t: "t = row0 # rest" by (cases t) auto
  from assms have "\<not> (t = [] \<or> length t < 2)" by auto
  then show ?thesis
    unfolding t
    by (simp add: extract_rows_from_table_def getitem_def bind_err_def header_of_def
        header_has_hint_def HEADER_HINTS_def Let_def)
qed

theorem header_exact_gate_witness:
  "2 \<le> length plain_header_table
   \<and> list_ex (\<lambda>h. h = lit ''quantity'' \<or> h = lit ''units'' \<or> h = lit ''size''
                  \<or> h = lit ''description'') (header_of plain_header_table)
   \<and> extract_rows_from_table (Some plain_header_table) (lit ''doc'')
       = table_data_rows (header_of plain_header_table) (drop 1 plain_header_table)
           (lit ''doc'')"
proof -
  have len: "2 \<le> length plain_header_table"
    by (simp add: plain_header_table_def)
  have hint: "list_ex (\<lambda>h. h = lit ''quantity'' \<or> h = lit ''units'' \<or> h = lit ''size''
                  \<or> h = lit ''description'') (header_of plain_header_table)"
    by (simp add: header_of_def plain_header_table_def string_defs)
  from header_exact_gate [OF len, of "lit ''doc''"] hint len show ?thesis
    by simp
qed

section \<open>Size-to-numeric coercion can raise\<close>

text \<open>
  C5 fails on the code: for the size \<open>x\<close> the text before the first \<open>x\<close> is empty, its
  list of words is empty, and taking the first word raises \<^verbatim>\<open>IndexError\<close>, which the
  handler for \<^verbatim>\<open>ValueError\<close> does not catch.
\<close>

theorem size_to_float_raises:
  "size_to_float (Some (lit ''x'')) = Inl IndexError"
  by (simp add: size_to_float_def string_defs getitem_def bind_err_def)

section \<open>Line stitching\<close>

lemma is_wrapped_prefix_Nil [simp]: "\<not> is_wrapped_prefix []"
  by (simp add: is_wrapped_prefix_def)

lemma stitch_wrapped_lines_blank:
  "normalize_text (Some l) = [] \<Longrightarrow> stitch_wrapped_lines (l # ls) = stitch_wrapped_lines ls"
  by (cases ls) simp_all

lemma stitch_pairs_no_prefix:
  "\<not> is_wrapped_prefix l \<Longrightarrow> stitch_pairs (l # ls) = l # stitch_pairs ls"
  by (cases ls) simp_all

lemma no_blank_after_prefix_tl:
  "no_blank_after_prefix (l # ls) \<Longrightarrow> no_blank_after_prefix ls"
  by (cases ls) simp_all

lemma stitch_wrapped_lines_refines_spec:
  "no_blank_after_prefix lines \<Longrightarrow> stitch_wrapped_lines lines = stitch_spec lines"
proof (induction lines rule: stitch_wrapped_lines.induct)
  case 1
  show ?case by (simp add: stitch_spec_def)
next
  case (2 l)
  show ?case by (simp add: stitch_spec_def Let_def)
next
  case (3 l n ls)
  let ?cur = "normalize_text (Some l)" and ?nxt = "normalize_text (Some n)"
  from "3.prems" have tl: "no_blank_after_prefix (n # ls)" by simp
  then have tl2: "no_blank_after_prefix ls" by (rule no_blank_after_prefix_tl)
  show ?case
  proof (cases "?cur = []")
    case True
    with "3.IH"(1) tl show ?thesis by (simp add: stitch_spec_def)
  next
    case cur: False
    show ?thesis
    proof (cases "is_wrapped_prefix ?cur")
      case True
      with "3.prems" have nxt: "?nxt \<noteq> []" by simp
      from "3.IH"(2) [OF refl cur] True nxt tl2
      have "stitch_wrapped_lines ls = stitch_spec ls" by simp
      with cur True nxt show ?thesis by (simp add: stitch_spec_def)
    next
      case False
      from "3.IH"(3) [OF refl cur] False tl
      have "stitch_wrapped_lines (n # ls) = stitch_spec (n # ls)" by simp
      with cur False show ?thesis
        by (simp add: stitch_spec_def stitch_pairs_no_prefix del: stitch_pairs.simps)
    qed
  qed
qed

text \<open>
  C6 as stated fails: with a blank line between the prefix line and the description line,
  normalizing and dropping blank lines first would stitch the two, and the code keeps them
  apart.
\<close>

theorem stitch_blank_between_counterexample:
  "stitch_spec [lit ''2 EA'', lit '' '', lit ''Valve 1/2in Bronze'']
     = [lit ''2 EA Valve 1/2in Bronze'']
   \<and> stitch_wrapped_lines [lit ''2 EA'', lit '' '', lit ''Valve 1/2in Bronze'']
     = [lit ''2 EA'', lit ''Valve 1/2in Bronze'']"
  by (simp add: stitch_spec_def is_wrapped_prefix_def string_defs float_defs)

text \<open>
  C6 as amended: line stitching normalizes each line and drops blank lines; a line of
  exactly two words, a number and \<^verbatim>\<open>EA\<close> or \<^verbatim>\<open>LF\<close>, is joined with the line directly
  behind it when that line is not blank, and both are passed; when the line directly behind
  it is blank or absent, the line is kept unstitched.  So the result is that of
  normalizing and dropping blank lines first and stitching then, whenever no such prefix
  line is directly followed by a blank line.
\<close>

theorem stitch_wrapped_lines_adjacent:
  "(no_blank_after_prefix lines \<longrightarrow> stitch_wrapped_lines lines = stitch_spec lines)
   \<and> (is_wrapped_prefix (normalize_text (Some l1)) \<and> normalize_text (Some n1) \<noteq> []
        \<longrightarrow> stitch_wrapped_lines (l1 # n1 # ls1)
            = (normalize_text (Some l1) @ lit '' '' @ normalize_text (Some n1))
                # stitch_wrapped_lines ls1)
   \<and> (is_wrapped_prefix (normalize_text (Some l2)) \<and> normalize_text (Some n2) = []
        \<longrightarrow> stitch_wrapped_lines (l2 # n2 # ls2)
            = normalize_text (Some l2) # stitch_wrapped_lines ls2)
   \<and> (is_wrapped_prefix (normalize_text (Some l3))
        \<longrightarrow> stitch_wrapped_lines [l3] = [normalize_text (Some l3)])"
proof (intro conjI impI)
  assume "no_blank_after_prefix lines"
  then show "stitch_wrapped_lines lines = stitch_spec lines"
    by (rule stitch_wrapped_lines_refines_spec)
next
  assume "is_wrapped_prefix (normalize_text (Some l1)) \<and> normalize_text (Some n1) \<noteq> []"
  moreover from this have "normalize_text (Some l1) \<noteq> []" by auto
  ultimately show "stitch_wrapped_lines (l1 # n1 # ls1)
      = (normalize_text (Some l1) @ lit '' '' @ normalize_text (Some n1))
          # stitch_wrapped_lines ls1"
    by simp
next
  assume a: "is_wrapped_prefix (normalize_text (Some l2)) \<and> normalize_text (Some n2) = []"
  then have "normalize_text (Some l2) \<noteq> []" by auto
  with a have "stitch_wrapped_lines (l2 # n2 # ls2)
      = normalize_text (Some l2) # stitch_wrapped_lines (n2 # ls2)"
    by simp
  also from a have "stitch_wrapped_lines (n2 # ls2) = stitch_wrapped_lines ls2"
    by (simp only: stitch_wrapped_lines_blank)
  finally show "stitch_wrapped_lines (l2 # n2 # ls2)
      = normalize_text (Some l2) # stitch_wrapped_lines ls2" .
next
  assume "is_wrapped_prefix (normalize_text (Some l3))"
  then have "normalize_text (Some l3) \<noteq> []" by auto
  then show "stitch_wrapped_lines [l3] = [normalize_text (Some l3)]" by simp
qed

theorem stitch_wrapped_lines_adjacent_witness:
  "no_blank_after_prefix [lit ''2 EA'', lit ''Valve 1/2in Bronze'']
   \<and> stitch_wrapped_lines [lit ''2 EA'', lit ''Valve 1/2in Bronze'']
       = stitch_spec [lit ''2 EA'', lit ''Valve 1/2in Bronze'']
   \<and> is_wrapped_prefix (normalize_text (Some (lit ''2 EA'')))
   \<and> normalize_text (Some (lit ''Valve 1/2in Bronze'')) \<noteq> []
   \<and> stitch_wrapped_lines [lit ''2 EA'', lit ''Valve 1/2in Bronze'']
       = [lit ''2 EA Valve 1/2in Bronze'']
   \<and> normalize_text (Some (lit '' '')) = []
   \<and> stitch_wrapped_lines [lit ''2 EA'', lit '' '', lit ''Valve 1/2in Bronze'']
       = [lit ''2 EA'', lit ''Valve 1/2in Bronze'']
   \<and> is_wrapped_prefix (normalize_text (Some (lit ''5 LF'')))
   \<and> stitch_wrapped_lines [lit ''5 LF''] = [lit ''5 LF'']"
proof -
  have p: "is_wrapped_prefix (normalize_text (Some (lit ''2 EA'')))"
    and q: "is_wrapped_prefix (normalize_text (Some (lit ''5 LF'')))"
    by (simp_all add: is_wrapped_prefix_def string_defs float_defs)
  have v: "normalize_text (Some (lit ''Valve 1/2in Bronze'')) \<noteq> []"
    and b: "normalize_text (Some (lit '' '')) = []"
    by (simp_all add: string_defs)
  have nb: "no_blank_after_prefix [lit ''2 EA'', lit ''Valve 1/2in Bronze'']"
    using v by simp
  have n2: "normalize_text (Some (lit ''2 EA'')) = lit ''2 EA''"
    and n5: "normalize_text (Some (lit ''5 LF'')) = lit ''5 LF''"
    and nv: "normalize_text (Some (lit ''Valve 1/2in Bronze'')) = lit ''Valve 1/2in Bronze''"
    and cat: "lit ''2 EA'' @ lit '' '' @ lit ''Valve 1/2in Bronze''
               = lit ''2 EA Valve 1/2in Bronze''"
    by (simp_all add: string_defs)
  note inst = stitch_wrapped_lines_adjacent
    [of "[lit ''2 EA'', lit ''Valve 1/2in Bronze'']"
        "lit ''2 EA''" "lit ''Valve 1/2in Bronze''" "[]"
        "lit ''2 EA''" "lit '' ''" "[lit ''Valve 1/2in Bronze'']"
        "lit ''5 LF''"]
  from inst nb have c1: "stitch_wrapped_lines [lit ''2 EA'', lit ''Valve 1/2in Bronze'']
       = stitch_spec [lit ''2 EA'', lit ''Valve 1/2in Bronze'']" by blast
  from inst p v have "stitch_wrapped_lines [lit ''2 EA'', lit ''Valve 1/2in Bronze'']
       = (normalize_text (Some (lit ''2 EA'')) @ lit '' ''
            @ normalize_text (Some (lit ''Valve 1/2in Bronze''))) # stitch_wrapped_lines []"
    by blast
  then have c2: "stitch_wrapped_lines [lit ''2 EA'', lit ''Valve 1/2in Bronze'']
       = [lit ''2 EA Valve 1/2in Bronze'']"
    by (simp only: n2 nv cat stitch_wrapped_lines.simps(1))
  from inst p b have "stitch_wrapped_lines [lit ''2 EA'', lit '' '', lit ''Valve 1/2in Bronze'']
       = normalize_text (Some (lit ''2 EA''))
           # stitch_wrapped_lines [lit ''Valve 1/2in Bronze'']"
    by blast
  then have c3: "stitch_wrapped_lines [lit ''2 EA'', lit '' '', lit ''Valve 1/2in Bronze'']
       = [lit ''2 EA'', lit ''Valve 1/2in Bronze'']"
    using v by (simp add: n2 nv)
  from inst q have "stitch_wrapped_lines [lit ''5 LF''] = [normalize_text (Some (lit ''5 LF''))]"
    by blast
  then have c4: "stitch_wrapped_lines [lit ''5 LF''] = [lit ''5 LF'']"
    by (simp only: n5)
  from nb c1 p v c2 b c3 q c4 show ?thesis by blast
qed

section \<open>Size and description of a text line\<close>

lemma find_first_Some:
  "find_first P xs = Some i \<Longrightarrow> i < length xs \<and> P (xs ! i) \<and> (\<forall>j<i. \<not> P (xs ! j))"
proof (induction xs arbitrary: i)
  case Nil
  then show ?case by simp
next
  case (Cons x xs)
  show ?case
  proof (cases "P x")
    case True
    with Cons.prems show ?thesis by simp
  next
    case False
    with Cons.prems obtain k where k: "find_first P xs = Some k" and i: "i = Suc k"
      by auto
    from Cons.IH [OF k] have "k < length xs" "P (xs ! k)" "\<forall>j<k. \<not> P (xs ! j)"
      by auto
    with False i show ?thesis by (auto simp: nth_Cons split: nat.split)
  qed
qed

lemma find_first_None: "find_first P xs = None \<Longrightarrow> list_all (\<lambda>x. \<not> P x) xs"
  by (induction xs) (auto split: if_splits)

lemma list_all_take_drop:
  "list_all P xs \<Longrightarrow> list_all P (take n xs) \<and> list_all P (drop n xs)"
  by (auto simp: list_all_iff dest: in_set_takeD in_set_dropD)

lemma py_join_nonempty: "list_all is_word ts \<Longrightarrow> ts \<noteq> [] \<Longrightarrow> py_join [32] ts \<noteq> []"
  using py_join_hd_last by blast

lemma normalize_text_empty [simp]: "normalize_text (Some []) = []"
  using normalize_text_join [of "[]"] by simp

text \<open>
  C7: for every line that passes the prefix checks of the text extractor a record is
  emitted.  When no word of the remainder is a description-start marker, or the first such
  word is the first word of the remainder, its size is empty and its description is the
  remainder joined by single spaces; otherwise its size is the words before the first
  marker and its description the words from the first marker on, each joined by single
  spaces.
\<close>

theorem text_line_size_description:
  assumes "passes_prefix_checks line0"
  shows "\<exists>r. text_line source_name line0 = Inr (Some r) \<and>
     (case find_desc_start_index (remainder_of line0) of
        None \<Rightarrow>
          list_all (\<lambda>t. \<not> is_desc_start t) (remainder_of line0)
          \<and> size_s r = []
          \<and> description r = py_join (lit '' '') (remainder_of line0)
      | Some i \<Rightarrow>
          i < length (remainder_of line0) \<and> is_desc_start (remainder_of line0 ! i)
          \<and> (\<forall>j<i. \<not> is_desc_start (remainder_of line0 ! j))
          \<and> (if i = 0
              then size_s r = []
                   \<and> description r = py_join (lit '' '') (remainder_of line0)
              else size_s r = py_join (lit '' '') (take i (remainder_of line0))
                   \<and> description r = py_join (lit '' '') (drop i (remainder_of line0))))"
proof -
  define line where "line = normalize_text (Some line0)"
  define parts where "parts = py_split line"
  define rem where "rem = drop 2 parts"
  from assms have ne: "line \<noteq> []"
    and noise: "\<not> (startswith (lower line) (lit ''dkc -'')
                  \<or> startswith (lower line) (lit ''quantity units''))"
    and len: "4 \<le> length parts"
    and qty: "py_float (parts ! 0) \<noteq> None"
    and un: "upper (normalize_text (Some (parts ! 1))) \<in> {lit ''EA'', lit ''LF''}"
    by (simp_all add: passes_prefix_checks_def Let_def line_def parts_def)
  from qty obtain q where q: "py_float (parts ! 0) = Some q" by auto
  from len have "0 < length parts" and "1 < length parts" by linarith+
  then have g0: "getitem parts 0 = Inr (parts ! 0)"
    and g1: "getitem parts (Suc 0) = Inr (parts ! Suc 0)"
    by (simp_all add: getitem_in_range)
  have words: "list_all is_word rem"
    unfolding rem_def parts_def using py_split_words list_all_take_drop by blast
  from len have rem_ne: "rem \<noteq> []" by (simp add: rem_def)
  have rem_eq: "remainder_of line0 = rem"
    by (simp add: remainder_of_def rem_def parts_def line_def)
  define sd where "sd = split_size_desc rem"
  have norm_snd: "normalize_text (Some (snd sd)) = snd sd \<and> snd sd \<noteq> []"
    and norm_fst: "normalize_text (Some (fst sd)) = fst sd"
    and shape: "(case find_desc_start_index rem of
        None \<Rightarrow> list_all (\<lambda>t. \<not> is_desc_start t) rem
          \<and> fst sd = [] \<and> snd sd = py_join [32] rem
      | Some i \<Rightarrow> i < length rem \<and> is_desc_start (rem ! i)
          \<and> (\<forall>j<i. \<not> is_desc_start (rem ! j))
          \<and> (if i = 0 then fst sd = [] \<and> snd sd = py_join [32] rem
              else fst sd = py_join [32] (take i rem) \<and> snd sd = py_join [32] (drop i rem)))"
  proof -
    show "normalize_text (Some (snd sd)) = snd sd \<and> snd sd \<noteq> []"
    proof (cases "find_desc_start_index rem")
      case None
      then have "snd sd = py_join [32] rem" by (simp add: sd_def split_size_desc_def)
      with words rem_ne show ?thesis
        by (simp add: normalize_text_join py_join_nonempty)
    next
      case (Some i)
      then have i: "i < length rem"
        using find_first_Some [of is_desc_start rem i]
        by (simp add: find_desc_start_index_def)
      show ?thesis
      proof (cases "i = 0")
        case True
        with Some have "snd sd = py_join [32] rem" by (simp add: sd_def split_size_desc_def)
        with words rem_ne show ?thesis
          by (simp add: normalize_text_join py_join_nonempty)
      next
        case False
        with Some have "snd sd = py_join [32] (drop i rem)"
          by (simp add: sd_def split_size_desc_def)
        moreover from words have "list_all is_word (drop i rem)"
          using list_all_take_drop by blast
        moreover from i have "drop i rem \<noteq> []" by simp
        ultimately show ?thesis
          by (simp add: normalize_text_join py_join_nonempty)
      qed
    qed
    show "normalize_text (Some (fst sd)) = fst sd"
    proof (cases "find_desc_start_index rem")
      case None
      then show ?thesis by (simp add: sd_def split_size_desc_def)
    next
      case (Some i)
      from words have "list_all is_word (take i rem)"
        using list_all_take_drop by blast
      with Some show ?thesis
        by (simp add: sd_def split_size_desc_def normalize_text_join)
    qed
    show "(case find_desc_start_index rem of
        None \<Rightarrow> list_all (\<lambda>t. \<not> is_desc_start t) rem
          \<and> fst sd = [] \<and> snd sd = py_join [32] rem
      | Some i \<Rightarrow> i < length rem \<and> is_desc_start (rem ! i)
          \<and> (\<forall>j<i. \<not> is_desc_start (rem ! j))
          \<and> (if i = 0 then fst sd = [] \<and> snd sd = py_join [32] rem
              else fst sd = py_join [32] (take i rem) \<and> snd sd = py_join [32] (drop i rem)))"
    proof (cases "find_desc_start_index rem")
      case None
      then show ?thesis
        using find_first_None [of is_desc_start rem]
        by (simp add: sd_def split_size_desc_def find_desc_start_index_def)
    next
      case (Some i)
      then show ?thesis
        using find_first_Some [of is_desc_start rem i]
        by (simp add: sd_def split_size_desc_def find_desc_start_index_def)
    qed
  qed
  let ?r = "\<lparr>source = source_name, quantity = q,
             units = normalize_text (Some (parts ! 1)), size_s = fst sd,
             description = snd sd,
             item_key = make_item_key (fst sd) (snd sd) (normalize_text (Some (parts ! 1)))\<rparr>"
  have "text_line source_name line0 = Inr (Some ?r)"
    using ne noise len un norm_snd norm_fst
    unfolding text_line_def Let_def line_def [symmetric] parts_def [symmetric]
      rem_def [symmetric] sd_def [symmetric]
    by (simp add: g0 g1 q bind_err_def)
  moreover have "size_s ?r = fst sd" and "description ?r = snd sd" by simp_all
  ultimately show ?thesis
    using shape unfolding rem_eq
    by (auto simp: lit_space split: option.splits if_splits)
qed

theorem text_line_size_description_witness:
  "passes_prefix_checks (lit ''2 EA 1/2in Bronze Valve threaded'')
   \<and> (\<exists>r. text_line (lit ''doc'') (lit ''2 EA 1/2in Bronze Valve threaded'') = Inr (Some r)
          \<and> size_s r = lit ''1/2in Bronze'' \<and> description r = lit ''Valve threaded'')"
proof -
  have h: "passes_prefix_checks (lit ''2 EA 1/2in Bronze Valve threaded'')"
    by (simp add: passes_prefix_checks_def string_defs float_defs)
  have rem: "remainder_of (lit ''2 EA 1/2in Bronze Valve threaded'')
      = [lit ''1/2in'', lit ''Bronze'', lit ''Valve'', lit ''threaded'']"
    by (simp add: remainder_of_def string_defs)
  have f: "find_desc_start_index [lit ''1/2in'', lit ''Bronze'', lit ''Valve'', lit ''threaded'']
      = Some 2"
    by (simp add: find_desc_start_index_def is_desc_start_def DESC_START_TOKENS_def string_defs)
  have j: "py_join (lit '' '') (take 2 [lit ''1/2in'', lit ''Bronze'', lit ''Valve'',
        lit ''threaded'']) = lit ''1/2in Bronze''"
    "py_join (lit '' '') (drop 2 [lit ''1/2in'', lit ''Bronze'', lit ''Valve'',
        lit ''threaded'']) = lit ''Valve threaded''"
    by (simp_all add: lit_def)
  from text_line_size_description [OF h, of "lit ''doc''"]
  obtain r where "text_line (lit ''doc'') (lit ''2 EA 1/2in Bronze Valve threaded'')
      = Inr (Some r)"
    and "size_s r = py_join (lit '' '') (take 2 [lit ''1/2in'', lit ''Bronze'', lit ''Valve'',
        lit ''threaded''])"
    and "description r = py_join (lit '' '') (drop 2 [lit ''1/2in'', lit ''Bronze'', lit ''Valve'',
        lit ''threaded''])"
    unfolding rem f by auto
  with h show ?thesis unfolding j by blast
qed

section \<open>A run without rows aborts\<close>

lemma extend_rows_all_empty:
  "list_all (\<lambda>x. f x = Inr []) xs \<Longrightarrow> extend_rows f xs = Inr []"
  by (induction xs) (simp_all add: bind_err_def)

text \<open>
  C9: when extraction yields no raw record for any of the documents found, the run ends
  with an error and the output file is left as it was.  When the input folder exists and
  documents were found, that error is \<open>No rows extracted.\<close>, which differs from the errors
  for a missing folder and for no documents, and the only effect of the run is that the
  output folder exists.
\<close>

theorem main_no_rows_aborts:
  assumes "list_all (\<lambda>f. extract_pdf f = Inr []) (pdf_files w)"
  shows "isl (fst (main w))
    \<and> output_file (snd (main w)) = output_file w
    \<and> (input_dir_exists w \<and> pdf_files w \<noteq> [] \<longrightarrow>
         main w = (Inl (RuntimeError (lit ''No rows extracted.'')),
                   w\<lparr>output_dir_exists := True\<rparr>))
    \<and> RuntimeError (lit ''No rows extracted.'') \<noteq> FileNotFoundError (lit ''No PDFs found.'')
    \<and> RuntimeError (lit ''No rows extracted.'')
        \<noteq> FileNotFoundError (lit ''Missing folder: '' @ input_dir_resolved w)"
proof -
  from assms have "extend_rows extract_pdf (pdf_files w) = Inr []"
    by (rule extend_rows_all_empty)
  then show ?thesis by (simp add: main_def Let_def)
qed

theorem main_no_rows_aborts_witness:
  "input_dir_exists empty_run_world \<and> pdf_files empty_run_world \<noteq> []
   \<and> list_all (\<lambda>f. extract_pdf f = Inr []) (pdf_files empty_run_world)
   \<and> main empty_run_world
       = (Inl (RuntimeError (lit ''No rows extracted.'')),
          empty_run_world\<lparr>output_dir_exists := True\<rparr>)
   \<and> output_file (snd (main empty_run_world)) = None"
proof -
  have a: "input_dir_exists empty_run_world" and b: "pdf_files empty_run_world \<noteq> []"
    and o: "output_file empty_run_world = None"
    by (simp_all add: empty_run_world_def)
  have t: "extract_rows_from_text (Some (lit ''Notes only'')) (lit ''doc'') = Inr []"
    by (simp add: extract_rows_from_text_def py_splitlines_def is_linebreak_def text_line_def
        bind_err_def string_defs)
  have c: "list_all (\<lambda>f. extract_pdf f = Inr []) (pdf_files empty_run_world)"
    by (simp add: empty_run_world_def extract_pdf_def extract_page_def
        extract_rows_from_table_def bind_err_def t)
  from main_no_rows_aborts [OF c] a b c o show ?thesis by simp
qed

section \<open>Sorting the master list\<close>

lemma apply_size_to_float_ok:
  "list_all (\<lambda>m. \<not> isl (size_to_float (Some (m_size m)))) ms \<Longrightarrow>
   apply_size_to_float ms = Inr (map (\<lambda>m. projr (size_to_float (Some (m_size m)))) ms)"
proof (induction ms)
  case Nil
  show ?case by simp
next
  case (Cons m ms)
  then obtain v where "size_to_float (Some (m_size m)) = Inr v"
    by (cases "size_to_float (Some (m_size m))") auto
  with Cons show ?case by (simp add: bind_err_def)
qed

lemma zip_helper_columns:
  "zip (map f xs) (zip xs (map g xs)) = map (\<lambda>x. (f x, x, g x)) xs"
  by (induction xs) simp_all

lemma zip_map_self: "zip (map f xs) xs = map (\<lambda>x. (f x, x)) xs"
  by (induction xs) simp_all

lemma sort_master_ok:
  assumes "list_all (\<lambda>m. \<not> isl (size_to_float (Some (m_size m)))) ms"
  shows "sort_master ms = Inr (map snd (sort_key fst (map (\<lambda>m. (sort_columns m, m)) ms)))"
  by (simp add: sort_master_def apply_size_to_float_ok [OF assms] bind_err_def
      zip_helper_columns zip_map_self sort_columns_def)



lemma unsorted_master_sizes_convert:
  "list_all (\<lambda>m. \<not> isl (size_to_float (Some (m_size m)))) unsorted_master"
  by (simp add: unsorted_master_def master_row_def size_to_float_def getitem_def bind_err_def
      string_defs float_defs)

lemma sort_master_unsorted_master:
  "sort_master unsorted_master =
     Inr [master_row 10 ''LF'' ''1.5'' ''Pipe'', master_row 1 ''EA'' ''1.5 x close'' ''Valve'',
          master_row 4 ''ea'' ''2'' ''Valve'', master_row 7 ''XX'' [] ''Bolt'']"
  unfolding sort_master_ok [OF unsorted_master_sizes_convert]
  by (simp add: unsorted_master_def master_row_def sort_columns_def unit_order_def
      size_to_float_def getitem_def bind_err_def string_defs float_defs)


section \<open>Aggregation\<close>








end
